theory Spec2Isabelle
  imports Main
begin

section \<open>Python values\<close>

text \<open>
  The script \<^verbatim>\<open>health_check_service.py\<close> is dynamically typed, and several of its
  functions return a string on one path and the two-element tuple \<^verbatim>\<open>(None, None)\<close> on
  another. The values that flow through it are therefore modelled by one datatype of Python
  values: \<^verbatim>\<open>None\<close>, booleans, integers, strings, tuples, lists and dictionaries (a
  dictionary is an association list, looked up with \<open>map_of\<close>). Strings are lists of 8-bit
  characters; JSON numbers are integers (floating point numbers are outside the model).
\<close>

datatype pyval =
    PNone
  | PBool bool
  | PInt int
  | PStr string
  | PTuple "pyval list"
  | PList "pyval list"
  | PDict "(string \<times> pyval) list"

text \<open>Truth value testing, as \<^verbatim>\<open>not x\<close> and \<^verbatim>\<open>if x\<close> apply it to built-in values.\<close>

fun py_truthy :: "pyval \<Rightarrow> bool" where
  "py_truthy PNone = False"
| "py_truthy (PBool b) = b"
| "py_truthy (PInt i) = (i \<noteq> 0)"
| "py_truthy (PStr s) = (s \<noteq> [])"
| "py_truthy (PTuple vs) = (vs \<noteq> [])"
| "py_truthy (PList vs) = (vs \<noteq> [])"
| "py_truthy (PDict kvs) = (kvs \<noteq> [])"

subsection \<open>\<^verbatim>\<open>str\<close> and \<^verbatim>\<open>repr\<close>\<close>

text \<open>
  \<^verbatim>\<open>str(x)\<close> and the f-string field \<^verbatim>\<open>{x}\<close> give a string unchanged and the
  \<^verbatim>\<open>repr\<close> of every other built-in value. The \<^verbatim>\<open>repr\<close> of a string picks the quote
  and escapes as CPython does for code points below 256.
\<close>

definition hex_digit :: "nat \<Rightarrow> char" where
  "hex_digit n = ''0123456789abcdef'' ! (n mod 16)"

definition hex_escape :: "char \<Rightarrow> string" where
  "hex_escape c = [CHR 0x5C, CHR ''x'', hex_digit (of_char c div 16), hex_digit (of_char c)]"

definition latin1_printable :: "char \<Rightarrow> bool" where
  "latin1_printable c = (let n = (of_char c :: nat) in 0xA0 < n \<and> n \<noteq> 0xAD)"

definition repr_char :: "char \<Rightarrow> char \<Rightarrow> string" where
  "repr_char q c =
     (if c = q \<or> c = CHR 0x5C then [CHR 0x5C, c]
      else if c = CHR 0x09 then [CHR 0x5C, CHR ''t'']
      else if c = CHR 0x0A then [CHR 0x5C, CHR ''n'']
      else if c = CHR 0x0D then [CHR 0x5C, CHR ''r'']
      else if (of_char c :: nat) < 0x20 \<or> c = CHR 0x7F then hex_escape c
      else if (of_char c :: nat) < 0x7F then [c]
      else if latin1_printable c then [c]
      else hex_escape c)"

definition repr_str :: "string \<Rightarrow> string" where
  "repr_str s =
     (let q = (if CHR 0x27 \<in> set s \<and> CHR 0x22 \<notin> set s then CHR 0x22 else CHR 0x27)
      in [q] @ concat (map (repr_char q) s) @ [q])"

fun digits :: "nat \<Rightarrow> string" where
  "digits n = (if n < 10 then [hex_digit n] else digits (n div 10) @ [hex_digit (n mod 10)])"

declare digits.simps [simp del]

definition repr_int :: "int \<Rightarrow> string" where
  "repr_int i = (if i < 0 then ''-'' @ digits (nat (- i)) else digits (nat i))"

fun join :: "string \<Rightarrow> string list \<Rightarrow> string" where
  "join sep [] = []"
| "join sep [x] = x"
| "join sep (x # y # ys) = x @ sep @ join sep (y # ys)"

fun py_repr :: "pyval \<Rightarrow> string" where
  "py_repr PNone = ''None''"
| "py_repr (PBool b) = (if b then ''True'' else ''False'')"
| "py_repr (PInt i) = repr_int i"
| "py_repr (PStr s) = repr_str s"
| "py_repr (PTuple vs) =
     (case vs of [v] \<Rightarrow> ''('' @ py_repr v @ '',)''
      | _ \<Rightarrow> ''('' @ join '', '' (map py_repr vs) @ '')'')"
| "py_repr (PList vs) = ''['' @ join '', '' (map py_repr vs) @ '']''"
| "py_repr (PDict kvs) =
     ''{'' @ join '', '' (map (\<lambda>kv. repr_str (fst kv) @ '': '' @ py_repr (snd kv)) kvs) @ ''}''"

definition py_str :: "pyval \<Rightarrow> string" where
  "py_str v = (case v of PStr s \<Rightarrow> s | _ \<Rightarrow> py_repr v)"

section \<open>Exceptions\<close>

text \<open>
  Every \<^verbatim>\<open>raise\<close> of the script and of the libraries it calls is a value of \<open>exn\<close>; a
  computation that may raise returns \<open>exn + 'a\<close>, with \<open>Inl\<close> the exception. All of them
  are subclasses of \<^verbatim>\<open>Exception\<close>, so every \<^verbatim>\<open>except Exception\<close> catches them.
  \<open>HTTPError\<close> is what \<^verbatim>\<open>raise_for_status\<close> raises, \<open>RequestError\<close> any other
  \<^verbatim>\<open>requests.exceptions.RequestException\<close> (connection failure, invalid URL),
  \<open>OtherError\<close> any other exception of a library.
\<close>

datatype exn =
    TypeError
  | AttributeError
  | KeyError string
  | IndexError
  | RuntimeError string
  | HTTPError int
  | RequestError
  | OtherError

fun is_RequestException :: "exn \<Rightarrow> bool" where
  "is_RequestException (HTTPError c) = True"
| "is_RequestException RequestError = True"
| "is_RequestException e = False"

subsection \<open>Operations on values that may raise\<close>

text \<open>\<^verbatim>\<open>d[k]\<close> on a dictionary, and \<^verbatim>\<open>v[k]\<close> with a string key on any value.\<close>

definition dict_getitem :: "(string \<times> pyval) list \<Rightarrow> string \<Rightarrow> exn + pyval" where
  "dict_getitem kvs k = (case map_of kvs k of None \<Rightarrow> Inl (KeyError k) | Some v \<Rightarrow> Inr v)"

definition py_getitem :: "pyval \<Rightarrow> string \<Rightarrow> exn + pyval" where
  "py_getitem v k = (case v of PDict kvs \<Rightarrow> dict_getitem kvs k | _ \<Rightarrow> Inl TypeError)"

text \<open>\<^verbatim>\<open>v.get(k, default)\<close>: only a dictionary has the method.\<close>

definition py_get :: "pyval \<Rightarrow> string \<Rightarrow> pyval \<Rightarrow> exn + pyval" where
  "py_get v k dflt =
     (case v of
        PDict kvs \<Rightarrow> Inr (case map_of kvs k of None \<Rightarrow> dflt | Some x \<Rightarrow> x)
      | _ \<Rightarrow> Inl AttributeError)"

text \<open>
  \<^verbatim>\<open>xs[i]\<close> on a list. The index \<^verbatim>\<open>-1\<close> is the last element, \<^verbatim>\<open>-len(xs)\<close> the
  first; an index outside \<^verbatim>\<open>-len(xs) .. len(xs) - 1\<close> raises \<^verbatim>\<open>IndexError\<close>.
\<close>

definition list_getitem :: "'a list \<Rightarrow> int \<Rightarrow> exn + 'a" where
  "list_getitem xs i =
     (if 0 \<le> i \<and> i < int (length xs) then Inr (xs ! nat i)
      else if - int (length xs) \<le> i \<and> i < 0 then Inr (xs ! nat (int (length xs) + i))
      else Inl IndexError)"

text \<open>\<^verbatim>\<open>s + v\<close> with \<open>s\<close> a string: only a string can be appended.\<close>

definition str_add :: "string \<Rightarrow> pyval \<Rightarrow> exn + string" where
  "str_add s v = (case v of PStr t \<Rightarrow> Inr (s @ t) | _ \<Rightarrow> Inl TypeError)"

section \<open>The outside world\<close>

text \<open>
  The script talks to the process environment, a keys file, Google Sheets (through
  \<^verbatim>\<open>gspread\<close>) and three HTTP endpoints (through \<^verbatim>\<open>requests\<close>). None of them is code
  of the repository: they are the fields of a \<open>world\<close>, and every theorem holds for every
  world.
\<close>

record request =
  req_method :: string
  req_url :: "string option"
  req_headers :: "(string \<times> string) list"
  req_json :: pyval

record response =
  status_code :: int
  resp_json :: "exn + pyval"
  resp_text :: string

text \<open>
  A worksheet answers \<^verbatim>\<open>get_all_records()\<close> with one dictionary for each data row under
  the header, in row order. A spreadsheet answers \<^verbatim>\<open>get_worksheet(i)\<close> with a worksheet,
  with \<^verbatim>\<open>None\<close>, or by raising.
\<close>

datatype worksheet = Worksheet (get_all_records: "exn + (string \<times> pyval) list list")

datatype spreadsheet = Spreadsheet (get_worksheet: "int \<Rightarrow> exn + worksheet option")

record world =
  webhook_url :: "string option"
  service_api_url :: "string option"
  auth_api_url :: "string option"
  keys_file :: "exn + pyval"
  gs_open :: "pyval \<Rightarrow> exn + spreadsheet"
  http :: "request \<Rightarrow> exn + response"

text \<open>
  \<open>webhook_url\<close>, \<open>service_api_url\<close> and \<open>auth_api_url\<close> are the results of
  \<^verbatim>\<open>os.getenv\<close> (\<open>None\<close> when the variable is unset). \<open>keys_file\<close> is the outcome of
  opening the keys file and \<^verbatim>\<open>json.load\<close> on it. \<open>gs_open key\<close> is the outcome of
  \<^verbatim>\<open>gspread.service_account(...)\<close> followed by \<^verbatim>\<open>open_by_key(key)\<close>. \<open>http req\<close> is the
  outcome of \<^verbatim>\<open>requests.request\<close>: a response, or the exception it raises.
\<close>

section \<open>Observable behaviour\<close>

text \<open>
  A run is observed through its trace: the lines it prints, the HTTP calls and spreadsheet
  connections it attempts, and the invocations of the three pipeline steps.
\<close>

datatype log_msg =
    LogApiError exn
  | LogSheetConnectFailed exn
  | LogTraceback exn
  | LogExcelKeyInvalid exn
  | LogWebhookNotConfigured
  | LogWebhookSent pyval
  | LogWebhookFailed int string
  | LogWebhookError exn

datatype event =
    Print log_msg
  | HttpCall request
  | SheetOpen pyval
  | Call_authenticate pyval pyval
  | Call_checkStausOfService pyval
  | Call_post_to_webhook pyval pyval

fun is_http_call :: "event \<Rightarrow> bool" where
  "is_http_call (HttpCall r) = True"
| "is_http_call e = False"

fun is_auth_call :: "event \<Rightarrow> bool" where
  "is_auth_call (Call_authenticate u p) = True"
| "is_auth_call e = False"

fun is_status_call :: "event \<Rightarrow> bool" where
  "is_status_call (Call_checkStausOfService t) = True"
| "is_status_call e = False"

fun is_notify_call :: "event \<Rightarrow> bool" where
  "is_notify_call (Call_post_to_webhook t c) = True"
| "is_notify_call e = False"

fun is_print :: "event \<Rightarrow> bool" where
  "is_print (Print m) = True"
| "is_print e = False"

text \<open>The value every failure path of the script returns: \<^verbatim>\<open>return None, None\<close>.\<close>

definition failure_pair :: pyval where
  "failure_pair = PTuple [PNone, PNone]"

section \<open>The functions of the script\<close>

definition raise_for_status :: "response \<Rightarrow> exn + unit" where
  "raise_for_status r =
     (if 400 \<le> status_code r \<and> status_code r < 600 then Inl (HTTPError (status_code r))
      else Inr ())"

definition apiCaller ::
  "world \<Rightarrow> string option \<Rightarrow> string \<Rightarrow> pyval \<Rightarrow> pyval \<Rightarrow> event list \<times> (exn + response)" where
  "apiCaller w url reqType jsonPayload token =
     (let headers = [(''Authorization'', ''Bearer '' @ py_str token)];
          req = \<lparr>req_method = reqType, req_url = url, req_headers = headers,
                 req_json = jsonPayload\<rparr>
      in case http w req of
           Inl e \<Rightarrow>
             ([HttpCall req] @ (if is_RequestException e then [Print (LogApiError e)] else []),
              Inl e)
         | Inr response \<Rightarrow>
             (case raise_for_status response of
                Inl e \<Rightarrow> ([HttpCall req, Print (LogApiError e)], Inl e)
              | Inr u \<Rightarrow> ([HttpCall req], Inr response)))"

text \<open>
  The variable \<^verbatim>\<open>spreadsheet\<close> of the orchestrator holds either a \<^verbatim>\<open>gspread\<close> object
  or a plain value (the failure pair). An object of \<^verbatim>\<open>gspread\<close> defines neither
  \<^verbatim>\<open>__bool__\<close> nor \<^verbatim>\<open>__len__\<close>, so it is true.
\<close>

datatype 'a py_ref = Obj 'a | Val pyval

fun ref_truthy :: "'a py_ref \<Rightarrow> bool" where
  "ref_truthy (Obj x) = True"
| "ref_truthy (Val v) = py_truthy v"

definition googleSheetConnectNew :: "world \<Rightarrow> pyval \<Rightarrow> event list \<times> spreadsheet py_ref" where
  "googleSheetConnectNew w EXCEL_KEY =
     (case gs_open w EXCEL_KEY of
        Inr spreadsheet \<Rightarrow> ([SheetOpen EXCEL_KEY], Obj spreadsheet)
      | Inl e \<Rightarrow>
          ([SheetOpen EXCEL_KEY, Print (LogSheetConnectFailed e), Print (LogTraceback e)],
           Val failure_pair))"

definition status_of_response :: "response \<Rightarrow> exn + pyval" where
  "status_of_response response =
     (case resp_json response of
        Inl e \<Rightarrow> Inl e
      | Inr j \<Rightarrow>
          (case py_getitem j ''status'' of
             Inl e \<Rightarrow> Inl e
           | Inr s \<Rightarrow>
               (case py_getitem s ''status'' of
                  Inl e \<Rightarrow> Inl e
                | Inr v \<Rightarrow> Inr (PStr (py_str v)))))"

definition checkStausOfService :: "world \<Rightarrow> pyval \<Rightarrow> event list \<times> pyval" where
  "checkStausOfService w token =
     (case apiCaller w (service_api_url w) ''GET'' PNone token of
        (t, Inl e) \<Rightarrow>
          (Call_checkStausOfService token # t @ [Print (LogTraceback e)], failure_pair)
      | (t, Inr response) \<Rightarrow>
          (case status_of_response response of
             Inl e \<Rightarrow>
               (Call_checkStausOfService token # t @ [Print (LogTraceback e)], failure_pair)
           | Inr s \<Rightarrow> (Call_checkStausOfService token # t, s)))"

definition token_of_response :: "response \<Rightarrow> exn + pyval" where
  "token_of_response response =
     (case resp_json response of
        Inl e \<Rightarrow> Inl e
      | Inr j \<Rightarrow> py_getitem j ''token'')"

definition authenticate :: "world \<Rightarrow> pyval \<Rightarrow> pyval \<Rightarrow> event list \<times> pyval" where
  "authenticate w username password =
     (let JSON_PAYLOAD = PDict [(''username'', username), (''password'', password)]
      in case apiCaller w (auth_api_url w) ''POST'' JSON_PAYLOAD PNone of
           (t, Inl e) \<Rightarrow>
             (Call_authenticate username password # t @ [Print (LogTraceback e)], failure_pair)
         | (t, Inr response) \<Rightarrow>
             (case token_of_response response of
                Inl e \<Rightarrow>
                  (Call_authenticate username password # t @ [Print (LogTraceback e)],
                   failure_pair)
              | Inr tok \<Rightarrow> (Call_authenticate username password # t, tok)))"

text \<open>
  \<^verbatim>\<open>get_excel_key\<close> has no \<^verbatim>\<open>return\<close> in its handler: after the log line it returns
  \<^verbatim>\<open>None\<close>.
\<close>

definition get_excel_key :: "world \<Rightarrow> string \<Rightarrow> event list \<times> pyval" where
  "get_excel_key w key_name =
     (case keys_file w of
        Inl e \<Rightarrow> ([Print (LogExcelKeyInvalid e)], PNone)
      | Inr config \<Rightarrow>
          (case py_get config key_name (PStr []) of
             Inl e \<Rightarrow> ([Print (LogExcelKeyInvalid e)], PNone)
           | Inr v \<Rightarrow> ([], v)))"

text \<open>The adaptive card \<^verbatim>\<open>post_to_webhook\<close> sends, given the text of its text block.\<close>

definition card_body :: "string \<Rightarrow> pyval \<Rightarrow> pyval" where
  "card_body block_text color =
     PDict
      [(''type'', PStr ''AdaptiveCard''),
       (''$schema'', PStr ''http://adaptivecards.io/schemas/adaptive-card.json''),
       (''body'',
        PList
         [PDict
           [(''type'', PStr ''Container''),
            (''items'',
             PList
              [PDict
                [(''type'', PStr ''TextBlock''),
                 (''text'', PStr block_text),
                 (''wrap'', PBool True),
                 (''spacing'', PStr ''Medium''),
                 (''horizontalAlignment'', PStr ''Center''),
                 (''height'', PStr ''stretch''),
                 (''style'', PStr ''heading''),
                 (''fontType'', PStr ''Monospace''),
                 (''size'', PStr ''ExtraLarge''),
                 (''weight'', PStr ''Bolder''),
                 (''color'', color),
                 (''isSubtle'', PBool True)]])]])]"

text \<open>\<^verbatim>\<open>not webhook_url\<close>: the variable is unset or empty.\<close>

fun url_unconfigured :: "string option \<Rightarrow> bool" where
  "url_unconfigured None = True"
| "url_unconfigured (Some u) = (u = [])"

text \<open>
  \<^verbatim>\<open>requests.post(webhook_url, json=body)\<close> passes no headers. The message text is built
  before the \<^verbatim>\<open>try\<close> block, so a \<^verbatim>\<open>TypeError\<close> of the concatenation leaves the function;
  everything the \<^verbatim>\<open>try\<close> block raises is logged and swallowed.
\<close>

definition post_to_webhook :: "world \<Rightarrow> pyval \<Rightarrow> pyval \<Rightarrow> event list \<times> (exn + unit)" where
  "post_to_webhook w text color =
     (if url_unconfigured (webhook_url w)
      then ([Call_post_to_webhook text color, Print LogWebhookNotConfigured], Inr ())
      else
        (case str_add ''BMS Service is '' text of
           Inl e \<Rightarrow> ([Call_post_to_webhook text color], Inl e)
         | Inr block_text \<Rightarrow>
             (let req = \<lparr>req_method = ''POST'', req_url = webhook_url w, req_headers = [],
                         req_json = card_body block_text color\<rparr>
              in case http w req of
                   Inl e \<Rightarrow>
                     ([Call_post_to_webhook text color, HttpCall req, Print (LogWebhookError e)],
                      Inr ())
                 | Inr response \<Rightarrow>
                     (if status_code response = 202
                      then ([Call_post_to_webhook text color, HttpCall req,
                             Print (LogWebhookSent text)], Inr ())
                      else ([Call_post_to_webhook text color, HttpCall req,
                             Print (LogWebhookFailed (status_code response)
                                      (resp_text response))], Inr ())))))"

subsection \<open>The orchestrator\<close>

text \<open>Sequencing of steps that log and may raise: the first exception ends the sequence.\<close>

definition seq ::
  "event list \<times> (exn + 'a) \<Rightarrow> ('a \<Rightarrow> event list \<times> (exn + 'b)) \<Rightarrow> event list \<times> (exn + 'b)" where
  "seq m f =
     (case m of
        (t, Inl e) \<Rightarrow> (t, Inl e)
      | (t, Inr x) \<Rightarrow> (case f x of (t', r) \<Rightarrow> (t @ t', r)))"

definition returns :: "event list \<times> 'a \<Rightarrow> event list \<times> (exn + 'a)" where
  "returns m = (fst m, Inr (snd m))"

definition raises :: "exn \<Rightarrow> event list \<times> (exn + 'a)" where
  "raises e = ([], Inl e)"

definition lift :: "exn + 'a \<Rightarrow> event list \<times> (exn + 'a)" where
  "lift r = ([], r)"

text \<open>\<^verbatim>\<open>spreadsheet.get_worksheet(0)\<close>: a tuple has no such attribute.\<close>

fun call_get_worksheet :: "spreadsheet py_ref \<Rightarrow> int \<Rightarrow> exn + worksheet option" where
  "call_get_worksheet (Obj s) i = get_worksheet s i"
| "call_get_worksheet (Val v) i = Inl AttributeError"

text \<open>The last three steps of the \<^verbatim>\<open>try\<close> block, given the credentials.\<close>

definition notify :: "world \<Rightarrow> pyval \<Rightarrow> event list \<times> (exn + unit)" where
  "notify w service_message =
     (if service_message = PStr ''Running''
      then post_to_webhook w service_message (PStr ''Good'')
      else post_to_webhook w service_message (PStr ''Warning''))"

definition check_and_notify :: "world \<Rightarrow> pyval \<Rightarrow> pyval \<Rightarrow> event list \<times> (exn + pyval)" where
  "check_and_notify w correct_username correct_password =
     seq (returns (authenticate w correct_username correct_password)) (\<lambda>access_token.
     seq (returns (checkStausOfService w access_token)) (\<lambda>service_message.
     seq (notify w service_message) (\<lambda>u.
     lift (Inr (PStr ''Success'')))))"

text \<open>The steps of the \<^verbatim>\<open>try\<close> block that read the credentials of the last row.\<close>

definition read_credentials :: "world \<Rightarrow> event list \<times> (exn + pyval \<times> pyval)" where
  "read_credentials w =
     seq (returns (get_excel_key w ''WINDOWS_SERVER_PASS'')) (\<lambda>windows_server_excel_key.
     seq (returns (googleSheetConnectNew w windows_server_excel_key)) (\<lambda>spreadsheet.
     seq (if \<not> ref_truthy spreadsheet
          then raises (RuntimeError ''Failed to connect to Google Sheets. Check service account permissions and spreadsheet key.'')
          else lift (Inr ())) (\<lambda>u.
     seq (lift (call_get_worksheet spreadsheet 0)) (\<lambda>worksheet.
     case worksheet of
       None \<Rightarrow> raises (RuntimeError ''Failed to access the first worksheet in the spreadsheet.'')
     | Some ws \<Rightarrow>
         seq (lift (get_all_records ws)) (\<lambda>data.
         seq (lift (list_getitem data (int (length data) - 1))) (\<lambda>row1.
         seq (lift (dict_getitem row1 ''Username'')) (\<lambda>correct_username.
         seq (lift (list_getitem data (int (length data) - 1))) (\<lambda>row2.
         seq (lift (dict_getitem row2 ''Password'')) (\<lambda>correct_password.
         lift (Inr (correct_username, correct_password)))))))))))"

definition process_body :: "world \<Rightarrow> event list \<times> (exn + pyval)" where
  "process_body w =
     seq (read_credentials w) (\<lambda>(correct_username, correct_password).
     check_and_notify w correct_username correct_password)"

definition process_all_req :: "world \<Rightarrow> event list \<times> pyval" where
  "process_all_req w =
     (case process_body w of
        (t, Inr v) \<Rightarrow> (t, v)
      | (t, Inl e) \<Rightarrow> (t @ [Print (LogTraceback e)], failure_pair))"

section \<open>Observations on traces and cards\<close>

fun http_requests :: "event list \<Rightarrow> request list" where
  "http_requests [] = []"
| "http_requests (HttpCall r # es) = r # http_requests es"
| "http_requests (e # es) = http_requests es"

definition request_line :: "request \<Rightarrow> string \<times> string option \<times> (string \<times> string) list" where
  "request_line r = (req_method r, req_url r, req_headers r)"

fun is_str :: "pyval \<Rightarrow> bool" where
  "is_str (PStr s) = True"
| "is_str v = False"

text \<open>
  The text blocks of an adaptive card, each with its text and its color, in the order of
  the card: the items of type \<^verbatim>\<open>TextBlock\<close> of the containers of its body.
\<close>

fun item_text_block :: "pyval \<Rightarrow> (pyval \<times> pyval) list" where
  "item_text_block (PDict kvs) =
     (if map_of kvs ''type'' = Some (PStr ''TextBlock'')
      then (case (map_of kvs ''text'', map_of kvs ''color'') of
              (Some t, Some c) \<Rightarrow> [(t, c)]
            | _ \<Rightarrow> [])
      else [])"
| "item_text_block v = []"

fun container_text_blocks :: "pyval \<Rightarrow> (pyval \<times> pyval) list" where
  "container_text_blocks (PDict kvs) =
     (case map_of kvs ''items'' of
        Some (PList items) \<Rightarrow> concat (map item_text_block items)
      | _ \<Rightarrow> [])"
| "container_text_blocks v = []"

fun text_blocks :: "pyval \<Rightarrow> (pyval \<times> pyval) list" where
  "text_blocks (PDict kvs) =
     (case map_of kvs ''body'' of
        Some (PList cs) \<Rightarrow> concat (map container_text_blocks cs)
      | _ \<Rightarrow> [])"
| "text_blocks v = []"

section \<open>Concrete worlds\<close>

text \<open>
  The end-to-end scenarios of the specification, as worlds. The credential sheet has two
  data rows; the last one is \<^verbatim>\<open>{"Username": "svc", "Password": "pw1"}\<close>.
\<close>

definition creds_sheet :: spreadsheet where
  "creds_sheet =
     Spreadsheet (\<lambda>i. if i = 0
        then Inr (Some (Worksheet (Inr
               [[(''Username'', PStr ''old''), (''Password'', PStr ''pw0'')],
                [(''Username'', PStr ''svc''), (''Password'', PStr ''pw1'')]])))
        else Inl OtherError)"

definition empty_sheet :: spreadsheet where
  "empty_sheet = Spreadsheet (\<lambda>i. if i = 0 then Inr (Some (Worksheet (Inr []))) else Inl OtherError)"

definition json_response :: "int \<Rightarrow> pyval \<Rightarrow> exn + response" where
  "json_response code j = Inr \<lparr>status_code = code, resp_json = Inr j, resp_text = []\<rparr>"

definition demo_world ::
  "string option \<Rightarrow> exn + pyval \<Rightarrow> exn + spreadsheet \<Rightarrow>
   exn + response \<Rightarrow> exn + response \<Rightarrow> exn + response \<Rightarrow> world" where
  "demo_world hook keys sheet auth_answer status_answer hook_answer =
     \<lparr>webhook_url = hook,
      service_api_url = Some ''https://bms.example/status'',
      auth_api_url = Some ''https://bms.example/login'',
      keys_file = keys,
      gs_open = (\<lambda>k. if k = PStr ''SHEET123'' then sheet else Inl OtherError),
      http = (\<lambda>r. if req_url r = Some ''https://bms.example/login'' then auth_answer
                   else if req_url r = Some ''https://bms.example/status'' then status_answer
                   else hook_answer)\<rparr>"

definition keys_table :: "exn + pyval" where
  "keys_table = Inr (PDict [(''WINDOWS_SERVER_PASS'', PStr ''SHEET123'')])"

definition token_abc :: "exn + response" where
  "token_abc = json_response 200 (PDict [(''token'', PStr ''abc'')])"

definition status_running :: "exn + response" where
  "status_running = json_response 200 (PDict [(''status'', PDict [(''status'', PStr ''Running'')])])"

definition unauthorized :: "exn + response" where
  "unauthorized = json_response 401 (PDict [(''error'', PStr ''unauthorized'')])"

definition hook_url :: "string option" where
  "hook_url = Some ''https://hook.example/in''"

text \<open>Scenario 1: everything answers, the service is running.\<close>

definition scenario1 :: world where
  "scenario1 =
     demo_world hook_url keys_table (Inr creds_sheet) token_abc status_running
       (json_response 202 PNone)"

text \<open>Scenario 3: the keys table has no entry \<^verbatim>\<open>WINDOWS_SERVER_PASS\<close>.\<close>

definition scenario3 :: world where
  "scenario3 =
     demo_world hook_url (Inr (PDict [])) (Inr creds_sheet) token_abc status_running
       (json_response 202 PNone)"

text \<open>
  Scenario 4: the auth endpoint answers HTTP 401, and so does the status endpoint to a
  request without a valid token.
\<close>

definition scenario4 :: world where
  "scenario4 =
     demo_world hook_url keys_table (Inr creds_sheet) unauthorized unauthorized
       (json_response 202 PNone)"

text \<open>The webhook URL is unset; otherwise as scenario 1.\<close>

definition scenario_unset_hook :: world where
  "scenario_unset_hook =
     demo_world None keys_table (Inr creds_sheet) token_abc status_running
       (json_response 202 PNone)"

text \<open>The webhook URL is unset and the status endpoint answers HTTP 500.\<close>

definition scenario_unset_hook_status_down :: world where
  "scenario_unset_hook_status_down =
     demo_world None keys_table (Inr creds_sheet) token_abc (json_response 500 PNone)
       (json_response 202 PNone)"

text \<open>The status endpoint answers HTTP 500; the webhook is configured.\<close>

definition scenario_status_down :: world where
  "scenario_status_down =
     demo_world hook_url keys_table (Inr creds_sheet) token_abc (json_response 500 PNone)
       (json_response 202 PNone)"

text \<open>The webhook answers HTTP 500; otherwise as scenario 1.\<close>

definition scenario_hook_down :: world where
  "scenario_hook_down =
     demo_world hook_url keys_table (Inr creds_sheet) token_abc status_running
       (json_response 500 PNone)"

text \<open>The first worksheet has a header and no data row; otherwise as scenario 1.\<close>

definition scenario_empty_sheet :: world where
  "scenario_empty_sheet =
     demo_world hook_url keys_table (Inr empty_sheet) token_abc status_running
       (json_response 202 PNone)"

text \<open>Scenario 4 with the webhook URL unset.\<close>

definition scenario4_unset_hook :: world where
  "scenario4_unset_hook =
     demo_world None keys_table (Inr creds_sheet) unauthorized unauthorized
       (json_response 202 PNone)"

section \<open>Sequencing\<close>

lemma seq_returns: "seq (returns m) f = (fst m @ fst (f (snd m)), snd (f (snd m)))"
  by (simp add: seq_def returns_def split: prod.splits)

lemma seq_lift_Inr: "seq (lift (Inr x)) f = f x"
  by (simp add: seq_def lift_def split: prod.splits)

lemma seq_lift_Inl: "seq (lift (Inl e)) f = ([], Inl e)"
  by (simp add: seq_def lift_def)

lemma seq_raises: "seq (raises e) f = ([], Inl e)"
  by (simp add: seq_def raises_def)

lemma seq_Inr: "seq (t, Inr x) f = (t @ fst (f x), snd (f x))"
  by (simp add: seq_def split: prod.splits)

lemma seq_Inl: "seq (t, Inl e) f = (t, Inl e)"
  by (simp add: seq_def)

lemmas seq_simps = seq_returns seq_lift_Inr seq_lift_Inl seq_raises seq_Inr seq_Inl

lemma fst_seq: "fst (seq m f) = fst m @ (case snd m of Inl e \<Rightarrow> [] | Inr x \<Rightarrow> fst (f x))"
  by (cases m; cases "snd m") (simp_all add: seq_simps)

lemma step_simps:
  "fst (lift r) = []" "snd (lift r) = r" "fst (raises e) = []" "snd (raises e) = Inl e"
  "fst (returns m) = fst m" "snd (returns m) = Inr (snd m)"
  by (simp_all add: lift_def raises_def returns_def)

lemma http_requests_append: "http_requests (xs @ ys) = http_requests xs @ http_requests ys"
  by (induction xs rule: http_requests.induct) simp_all

section \<open>What each function leaves in the trace\<close>

lemma apiCaller_obs:
  "filter is_auth_call (fst (apiCaller w url m j tok)) = []"
  "filter is_status_call (fst (apiCaller w url m j tok)) = []"
  "filter is_notify_call (fst (apiCaller w url m j tok)) = []"
  "http_requests (fst (apiCaller w url m j tok)) =
     [\<lparr>req_method = m, req_url = url,
       req_headers = [(''Authorization'', ''Bearer '' @ py_str tok)], req_json = j\<rparr>]"
  by (simp_all add: apiCaller_def Let_def split: sum.splits)

lemma authenticate_obs:
  "filter is_auth_call (fst (authenticate w u p)) = [Call_authenticate u p]"
  "filter is_status_call (fst (authenticate w u p)) = []"
  "filter is_notify_call (fst (authenticate w u p)) = []"
  "http_requests (fst (authenticate w u p)) =
     [\<lparr>req_method = ''POST'', req_url = auth_api_url w,
       req_headers = [(''Authorization'', ''Bearer None'')],
       req_json = PDict [(''username'', u), (''password'', p)]\<rparr>]"
proof -
  let ?c = "apiCaller w (auth_api_url w) ''POST'' (PDict [(''username'', u), (''password'', p)]) PNone"
  obtain t r where c: "?c = (t, r)" by (cases ?c)
  have t: "filter is_auth_call t = []" "filter is_status_call t = []"
    "filter is_notify_call t = []"
    "http_requests t = [\<lparr>req_method = ''POST'', req_url = auth_api_url w,
       req_headers = [(''Authorization'', ''Bearer None'')],
       req_json = PDict [(''username'', u), (''password'', p)]\<rparr>]"
    using apiCaller_obs [of w "auth_api_url w" "''POST''"
        "PDict [(''username'', u), (''password'', p)]" PNone]
    by (simp_all add: c py_str_def)
  show "filter is_auth_call (fst (authenticate w u p)) = [Call_authenticate u p]"
    by (simp add: authenticate_def c t split: sum.splits)
  show "filter is_status_call (fst (authenticate w u p)) = []"
    by (simp add: authenticate_def c t split: sum.splits)
  show "filter is_notify_call (fst (authenticate w u p)) = []"
    by (simp add: authenticate_def c t split: sum.splits)
  show "http_requests (fst (authenticate w u p)) =
     [\<lparr>req_method = ''POST'', req_url = auth_api_url w,
       req_headers = [(''Authorization'', ''Bearer None'')],
       req_json = PDict [(''username'', u), (''password'', p)]\<rparr>]"
    by (simp add: authenticate_def c t http_requests_append split: sum.splits)
qed

lemma checkStausOfService_obs:
  "filter is_auth_call (fst (checkStausOfService w tok)) = []"
  "filter is_status_call (fst (checkStausOfService w tok)) = [Call_checkStausOfService tok]"
  "filter is_notify_call (fst (checkStausOfService w tok)) = []"
  "http_requests (fst (checkStausOfService w tok)) =
     [\<lparr>req_method = ''GET'', req_url = service_api_url w,
       req_headers = [(''Authorization'', ''Bearer '' @ py_str tok)], req_json = PNone\<rparr>]"
proof -
  let ?c = "apiCaller w (service_api_url w) ''GET'' PNone tok"
  obtain t r where c: "?c = (t, r)" by (cases ?c)
  have t: "filter is_auth_call t = []" "filter is_status_call t = []"
    "filter is_notify_call t = []"
    "http_requests t = [\<lparr>req_method = ''GET'', req_url = service_api_url w,
       req_headers = [(''Authorization'', ''Bearer '' @ py_str tok)], req_json = PNone\<rparr>]"
    using apiCaller_obs [of w "service_api_url w" "''GET''" PNone tok]
    by (simp_all add: c)
  show "filter is_auth_call (fst (checkStausOfService w tok)) = []"
    by (simp add: checkStausOfService_def c t split: sum.splits)
  show "filter is_status_call (fst (checkStausOfService w tok)) = [Call_checkStausOfService tok]"
    by (simp add: checkStausOfService_def c t split: sum.splits)
  show "filter is_notify_call (fst (checkStausOfService w tok)) = []"
    by (simp add: checkStausOfService_def c t split: sum.splits)
  show "http_requests (fst (checkStausOfService w tok)) =
     [\<lparr>req_method = ''GET'', req_url = service_api_url w,
       req_headers = [(''Authorization'', ''Bearer '' @ py_str tok)], req_json = PNone\<rparr>]"
    by (simp add: checkStausOfService_def c t http_requests_append split: sum.splits)
qed

lemma get_excel_key_obs:
  "filter is_auth_call (fst (get_excel_key w k)) = []"
  "filter is_status_call (fst (get_excel_key w k)) = []"
  "filter is_notify_call (fst (get_excel_key w k)) = []"
  "http_requests (fst (get_excel_key w k)) = []"
  by (simp_all add: get_excel_key_def split: sum.splits)

lemma googleSheetConnectNew_obs:
  "filter is_auth_call (fst (googleSheetConnectNew w k)) = []"
  "filter is_status_call (fst (googleSheetConnectNew w k)) = []"
  "filter is_notify_call (fst (googleSheetConnectNew w k)) = []"
  "http_requests (fst (googleSheetConnectNew w k)) = []"
  by (simp_all add: googleSheetConnectNew_def split: sum.splits)

lemma post_to_webhook_obs:
  "filter is_auth_call (fst (post_to_webhook w text color)) = []"
  "filter is_status_call (fst (post_to_webhook w text color)) = []"
  "filter is_notify_call (fst (post_to_webhook w text color)) = [Call_post_to_webhook text color]"
  by (simp_all add: post_to_webhook_def Let_def split: sum.splits)

lemma notify_obs:
  "filter is_auth_call (fst (notify w m)) = []"
  "filter is_status_call (fst (notify w m)) = []"
  "filter is_notify_call (fst (notify w m)) =
     [Call_post_to_webhook m (if m = PStr ''Running'' then PStr ''Good'' else PStr ''Warning'')]"
  by (simp_all add: notify_def post_to_webhook_obs)

section \<open>The orchestrator, step by step\<close>

lemma read_credentials_trace:
  "fst (read_credentials w) =
     fst (get_excel_key w ''WINDOWS_SERVER_PASS'') @
     fst (googleSheetConnectNew w (snd (get_excel_key w ''WINDOWS_SERVER_PASS'')))"
  by (simp add: read_credentials_def fst_seq step_simps split: sum.splits option.splits)

lemma read_credentials_obs:
  "filter is_auth_call (fst (read_credentials w)) = []"
  "filter is_status_call (fst (read_credentials w)) = []"
  "filter is_notify_call (fst (read_credentials w)) = []"
  "http_requests (fst (read_credentials w)) = []"
  by (simp_all add: read_credentials_trace get_excel_key_obs googleSheetConnectNew_obs
      http_requests_append)

lemma process_all_req_no_credentials:
  assumes "snd (read_credentials w) = Inl e"
  shows "process_all_req w = (fst (read_credentials w) @ [Print (LogTraceback e)], failure_pair)"
  using assms
  by (cases "read_credentials w") (simp add: process_all_req_def process_body_def seq_def)

lemma process_all_req_credentials:
  assumes "snd (read_credentials w) = Inr (u, p)"
  shows "process_all_req w =
     (fst (read_credentials w) @ fst (authenticate w u p) @
      fst (checkStausOfService w (snd (authenticate w u p))) @
      fst (notify w (snd (checkStausOfService w (snd (authenticate w u p))))) @
      (case snd (notify w (snd (checkStausOfService w (snd (authenticate w u p))))) of
         Inl e \<Rightarrow> [Print (LogTraceback e)] | Inr x \<Rightarrow> []),
      (case snd (notify w (snd (checkStausOfService w (snd (authenticate w u p))))) of
         Inl e \<Rightarrow> failure_pair | Inr x \<Rightarrow> PStr ''Success''))"
proof -
  obtain t where rc: "read_credentials w = (t, Inr (u, p))"
    using assms by (cases "read_credentials w") simp
  obtain tn rn where n: "notify w (snd (checkStausOfService w (snd (authenticate w u p)))) = (tn, rn)"
    by (cases "notify w (snd (checkStausOfService w (snd (authenticate w u p))))")
  show ?thesis
    by (cases rn)
      (simp_all add: process_all_req_def process_body_def check_and_notify_def rc n seq_simps
        lift_def)
qed


lemma snd_seq: "snd (seq m f) = (case snd m of Inl e \<Rightarrow> Inl e | Inr x \<Rightarrow> snd (f x))"
  by (cases m; cases "snd m") (simp_all add: seq_simps)

lemma list_getitem_last: "xs \<noteq> [] \<Longrightarrow> list_getitem xs (int (length xs) - 1) = Inr (last xs)"
  by (cases xs rule: rev_cases) (simp_all add: list_getitem_def nth_append)

lemma list_getitem_Nil: "list_getitem [] (int (length []) - 1) = Inl IndexError"
  by (simp add: list_getitem_def)

lemma read_credentials_connect_failed:
  assumes "gs_open w (snd (get_excel_key w ''WINDOWS_SERVER_PASS'')) = Inl e"
  shows "snd (read_credentials w) = Inl AttributeError"
  using assms
  by (simp add: read_credentials_def snd_seq step_simps googleSheetConnectNew_def
      failure_pair_def)

lemma read_credentials_worksheet:
  assumes "gs_open w (snd (get_excel_key w ''WINDOWS_SERVER_PASS'')) = Inr sp"
  shows "snd (read_credentials w) =
     (case get_worksheet sp 0 of
        Inl e \<Rightarrow> Inl e
      | Inr None \<Rightarrow> Inl (RuntimeError ''Failed to access the first worksheet in the spreadsheet.'')
      | Inr (Some ws) \<Rightarrow>
          (case get_all_records ws of
             Inl e \<Rightarrow> Inl e
           | Inr rows \<Rightarrow>
               (if rows = [] then Inl IndexError
                else case dict_getitem (last rows) ''Username'' of
                       Inl e \<Rightarrow> Inl e
                     | Inr u \<Rightarrow>
                         (case dict_getitem (last rows) ''Password'' of
                            Inl e \<Rightarrow> Inl e
                          | Inr p \<Rightarrow> Inr (u, p)))))"
  using assms
  by (simp add: read_credentials_def snd_seq step_simps googleSheetConnectNew_def
      list_getitem_last list_getitem_Nil [simplified]
      split: sum.splits option.splits)

lemma post_to_webhook_requests:
  "http_requests (fst (post_to_webhook w text color)) =
     (if url_unconfigured (webhook_url w) then []
      else case text of
             PStr t \<Rightarrow> [\<lparr>req_method = ''POST'', req_url = webhook_url w, req_headers = [],
                          req_json = card_body (''BMS Service is '' @ t) color\<rparr>]
           | _ \<Rightarrow> [])"
  by (simp add: post_to_webhook_def str_add_def Let_def split: sum.splits pyval.splits)

lemma process_all_req_requests:
  assumes "snd (read_credentials w) = Inr (u, p)"
  shows "http_requests (fst (process_all_req w)) =
     http_requests (fst (authenticate w u p)) @
     http_requests (fst (checkStausOfService w (snd (authenticate w u p)))) @
     http_requests (fst (notify w (snd (checkStausOfService w (snd (authenticate w u p))))))"
  by (simp add: process_all_req_credentials [OF assms] http_requests_append
      read_credentials_obs split: sum.splits)

lemma checkStausOfService_answer:
  assumes "http w \<lparr>req_method = ''GET'', req_url = service_api_url w,
             req_headers = [(''Authorization'', ''Bearer '' @ py_str tok)],
             req_json = PNone\<rparr> = Inr r"
    and "\<not> (400 \<le> status_code r \<and> status_code r < 600)"
    and "status_of_response r = Inr s"
  shows "snd (checkStausOfService w tok) = s"
  using assms
  by (auto simp: checkStausOfService_def apiCaller_def raise_for_status_def Let_def)


section \<open>Evaluation of the concrete worlds\<close>

lemmas world_defs = scenario1_def scenario3_def scenario4_def scenario4_unset_hook_def
  scenario_unset_hook_def
  scenario_unset_hook_status_down_def scenario_status_down_def scenario_hook_down_def
  scenario_empty_sheet_def demo_world_def keys_table_def token_abc_def status_running_def
  unauthorized_def hook_url_def json_response_def creds_sheet_def empty_sheet_def

lemmas run_defs = process_all_req_def process_body_def read_credentials_def
  check_and_notify_def notify_def post_to_webhook_def get_excel_key_def authenticate_def
  checkStausOfService_def googleSheetConnectNew_def apiCaller_def raise_for_status_def
  token_of_response_def status_of_response_def py_getitem_def dict_getitem_def py_get_def
  list_getitem_def str_add_def seq_def returns_def raises_def lift_def failure_pair_def
  py_str_def

lemma scenario_key:
  "snd (get_excel_key scenario1 ''WINDOWS_SERVER_PASS'') = PStr ''SHEET123''"
  "snd (get_excel_key scenario_empty_sheet ''WINDOWS_SERVER_PASS'') = PStr ''SHEET123''"
  by (simp_all add: world_defs get_excel_key_def py_get_def)

lemma scenario_credentials:
  "snd (read_credentials scenario1) = Inr (PStr ''svc'', PStr ''pw1'')"
  "snd (read_credentials scenario4) = Inr (PStr ''svc'', PStr ''pw1'')"
  "snd (read_credentials scenario_unset_hook) = Inr (PStr ''svc'', PStr ''pw1'')"
  "snd (read_credentials scenario_unset_hook_status_down) = Inr (PStr ''svc'', PStr ''pw1'')"
  "snd (read_credentials scenario_status_down) = Inr (PStr ''svc'', PStr ''pw1'')"
  "snd (read_credentials scenario_hook_down) = Inr (PStr ''svc'', PStr ''pw1'')"
  by (simp_all add: world_defs run_defs)

lemma scenario_tokens:
  "snd (authenticate scenario1 (PStr ''svc'') (PStr ''pw1'')) = PStr ''abc''"
  "snd (authenticate scenario4 (PStr ''svc'') (PStr ''pw1'')) = failure_pair"
  "snd (authenticate scenario_unset_hook (PStr ''svc'') (PStr ''pw1'')) = PStr ''abc''"
  "snd (authenticate scenario_unset_hook_status_down (PStr ''svc'') (PStr ''pw1'')) = PStr ''abc''"
  "snd (authenticate scenario_status_down (PStr ''svc'') (PStr ''pw1'')) = PStr ''abc''"
  "snd (authenticate scenario_hook_down (PStr ''svc'') (PStr ''pw1'')) = PStr ''abc''"
  by (simp_all add: world_defs run_defs)

lemma scenario_statuses:
  "snd (checkStausOfService scenario1 (PStr ''abc'')) = PStr ''Running''"
  "snd (checkStausOfService scenario4 failure_pair) = failure_pair"
  "snd (checkStausOfService scenario_unset_hook (PStr ''abc'')) = PStr ''Running''"
  "snd (checkStausOfService scenario_unset_hook_status_down (PStr ''abc'')) = failure_pair"
  "snd (checkStausOfService scenario_status_down (PStr ''abc'')) = failure_pair"
  "snd (checkStausOfService scenario_hook_down (PStr ''abc'')) = PStr ''Running''"
  by (simp_all add: world_defs run_defs)

lemma text_blocks_card_body: "text_blocks (card_body s c) = [(PStr s, c)]"
  by (simp add: card_body_def)

lemma status_of_running:
  "resp_json r = Inr (PDict [(''status'', PDict [(''status'', PStr ''Running'')])]) \<Longrightarrow>
   status_of_response r = Inr (PStr ''Running'')"
  by (simp add: status_of_response_def py_getitem_def dict_getitem_def py_str_def)

lemma scenario1_status_answer:
  "http scenario1 \<lparr>req_method = ''GET'', req_url = service_api_url scenario1,
      req_headers = [(''Authorization'',
        ''Bearer '' @ py_str (snd (authenticate scenario1 (PStr ''svc'') (PStr ''pw1''))))],
      req_json = PNone\<rparr> =
   Inr \<lparr>status_code = 200,
        resp_json = Inr (PDict [(''status'', PDict [(''status'', PStr ''Running'')])]),
        resp_text = []\<rparr>"
  by (simp add: world_defs)

lemma status_check_follows_authentication:
  assumes "snd (read_credentials w) = Inr (u, p)"
  shows "filter is_status_call (fst (process_all_req w)) =
           [Call_checkStausOfService (snd (authenticate w u p))]"
  by (simp add: process_all_req_credentials [OF assms] read_credentials_obs authenticate_obs
      checkStausOfService_obs notify_obs split: sum.splits)

lemma post_to_webhook_call_returns:
  "http_requests (fst (post_to_webhook w x c)) \<noteq> [] \<Longrightarrow>
   is_str x \<and> snd (post_to_webhook w x c) = Inr ()"
  by (cases x) (simp_all add: post_to_webhook_def str_add_def Let_def split: sum.splits if_splits)

section \<open>The claims\<close>

text \<open>
  Claim C10. When the connection to the spreadsheet fails, \<^verbatim>\<open>googleSheetConnectNew\<close>
  returns the pair \<^verbatim>\<open>(None, None)\<close>. The pair is a true value, so the guard
  \<^verbatim>\<open>if not spreadsheet\<close> of the orchestrator does not fire on it. The run stops all the
  same: \<^verbatim>\<open>get_worksheet\<close> on the pair raises \<^verbatim>\<open>AttributeError\<close>, which the handler of
  the orchestrator catches and logs before it returns the failure pair.
\<close>

theorem connection_failure_pair_is_truthy:
  assumes "gs_open w (snd (get_excel_key w ''WINDOWS_SERVER_PASS'')) = Inl e"
  shows "snd (googleSheetConnectNew w (snd (get_excel_key w ''WINDOWS_SERVER_PASS''))) =
           Val failure_pair \<and>
         ref_truthy (Val failure_pair :: spreadsheet py_ref) \<and>
         call_get_worksheet (Val failure_pair) 0 = Inl AttributeError \<and>
         snd (process_body w) = Inl AttributeError \<and>
         process_all_req w =
           (fst (read_credentials w) @ [Print (LogTraceback AttributeError)], failure_pair)"
proof -
  have rc: "snd (read_credentials w) = Inl AttributeError"
    using assms by (rule read_credentials_connect_failed)
  have "snd (process_body w) = Inl AttributeError"
    by (simp add: process_body_def snd_seq rc)
  moreover have "snd (googleSheetConnectNew w (snd (get_excel_key w ''WINDOWS_SERVER_PASS''))) =
      Val failure_pair"
    using assms by (simp add: googleSheetConnectNew_def)
  moreover have "ref_truthy (Val failure_pair :: spreadsheet py_ref)"
    by (simp add: failure_pair_def)
  ultimately show ?thesis
    using process_all_req_no_credentials [OF rc] by simp
qed

theorem connection_failure_pair_is_truthy_witness:
  "gs_open scenario3 (snd (get_excel_key scenario3 ''WINDOWS_SERVER_PASS'')) = Inl OtherError \<and>
   snd (googleSheetConnectNew scenario3 (snd (get_excel_key scenario3 ''WINDOWS_SERVER_PASS''))) =
     Val failure_pair \<and>
   snd (process_body scenario3) = Inl AttributeError \<and>
   snd (process_all_req scenario3) = failure_pair"
proof -
  have h: "gs_open scenario3 (snd (get_excel_key scenario3 ''WINDOWS_SERVER_PASS'')) = Inl OtherError"
    by (simp add: world_defs get_excel_key_def py_get_def)
  show ?thesis
    using h connection_failure_pair_is_truthy [OF h] by simp
qed

text \<open>
  Claim C2. When the credential store cannot be opened, the orchestrator returns the failure
  pair, and its trace holds no invocation of the authenticator, of the status check or of
  the notifier, and no HTTP call at all. This includes the run in which the keys table has no
  entry \<^verbatim>\<open>WINDOWS_SERVER_PASS\<close>: the lookup then yields the empty string, silently, and
  the first part applies when the spreadsheet with the empty identifier cannot be opened.
\<close>

theorem credential_store_unopenable:
  "(gs_open w (snd (get_excel_key w ''WINDOWS_SERVER_PASS'')) = Inl e \<longrightarrow>
      snd (process_all_req w) = failure_pair \<and>
      filter is_auth_call (fst (process_all_req w)) = [] \<and>
      filter is_status_call (fst (process_all_req w)) = [] \<and>
      filter is_notify_call (fst (process_all_req w)) = [] \<and>
      http_requests (fst (process_all_req w)) = []) \<and>
   (keys_file w = Inr (PDict kvs) \<and> map_of kvs ''WINDOWS_SERVER_PASS'' = None \<longrightarrow>
      get_excel_key w ''WINDOWS_SERVER_PASS'' = ([], PStr []))"
proof (intro conjI impI)
  assume "keys_file w = Inr (PDict kvs) \<and> map_of kvs ''WINDOWS_SERVER_PASS'' = None"
  then show "get_excel_key w ''WINDOWS_SERVER_PASS'' = ([], PStr [])"
    by (simp add: get_excel_key_def py_get_def)
next
  assume a: "gs_open w (snd (get_excel_key w ''WINDOWS_SERVER_PASS'')) = Inl e"
  have rc: "snd (read_credentials w) = Inl AttributeError"
    using a by (rule read_credentials_connect_failed)
  note run = process_all_req_no_credentials [OF rc]
  show "snd (process_all_req w) = failure_pair" by (simp add: run)
  show "filter is_auth_call (fst (process_all_req w)) = []"
    by (simp add: run read_credentials_obs)
  show "filter is_status_call (fst (process_all_req w)) = []"
    by (simp add: run read_credentials_obs)
  show "filter is_notify_call (fst (process_all_req w)) = []"
    by (simp add: run read_credentials_obs)
  show "http_requests (fst (process_all_req w)) = []"
    by (simp add: run read_credentials_obs http_requests_append)
qed

theorem credential_store_unopenable_witness:
  "keys_file scenario3 = Inr (PDict []) \<and>
   map_of ([] :: (string \<times> pyval) list) ''WINDOWS_SERVER_PASS'' = None \<and>
   get_excel_key scenario3 ''WINDOWS_SERVER_PASS'' = ([], PStr []) \<and>
   gs_open scenario3 (PStr []) = Inl OtherError \<and>
   snd (process_all_req scenario3) = failure_pair \<and>
   filter is_auth_call (fst (process_all_req scenario3)) = [] \<and>
   filter is_status_call (fst (process_all_req scenario3)) = [] \<and>
   filter is_notify_call (fst (process_all_req scenario3)) = [] \<and>
   http_requests (fst (process_all_req scenario3)) = []"
proof -
  have k: "keys_file scenario3 = Inr (PDict []) \<and>
      map_of ([] :: (string \<times> pyval) list) ''WINDOWS_SERVER_PASS'' = None"
    by (simp add: world_defs)
  have g: "get_excel_key scenario3 ''WINDOWS_SERVER_PASS'' = ([], PStr [])"
    using k credential_store_unopenable [of scenario3 OtherError "[]"] by blast
  have o: "gs_open scenario3 (snd (get_excel_key scenario3 ''WINDOWS_SERVER_PASS'')) = Inl OtherError"
    by (simp add: g) (simp add: world_defs)
  show ?thesis
    using k g o credential_store_unopenable [of scenario3 OtherError "[]"] by simp
qed

text \<open>
  Claim C8. When the credential sheet is opened and its first worksheet has at least one
  data row, the authenticator is invoked exactly once, with the \<^verbatim>\<open>Username\<close> and
  \<^verbatim>\<open>Password\<close> fields of the last data row. When the worksheet is inaccessible
  (\<^verbatim>\<open>get_worksheet\<close> raises or returns \<^verbatim>\<open>None\<close>, or reading the records raises) or has
  no data row, the run returns the failure pair, the authenticator is never invoked and no
  HTTP call is made.
\<close>

theorem credentials_from_last_row:
  assumes "gs_open w (snd (get_excel_key w ''WINDOWS_SERVER_PASS'')) = Inr sp"
  shows "(get_worksheet sp 0 = Inr (Some ws) \<and> get_all_records ws = Inr rows \<and> rows \<noteq> [] \<and>
          map_of (last rows) ''Username'' = Some u \<and> map_of (last rows) ''Password'' = Some p \<longrightarrow>
            filter is_auth_call (fst (process_all_req w)) = [Call_authenticate u p]) \<and>
         (get_worksheet sp 0 = Inl e \<or> get_worksheet sp 0 = Inr None \<or>
          (get_worksheet sp 0 = Inr (Some ws) \<and>
             (get_all_records ws = Inl e \<or> get_all_records ws = Inr [])) \<longrightarrow>
            snd (process_all_req w) = failure_pair \<and>
            filter is_auth_call (fst (process_all_req w)) = [] \<and>
            http_requests (fst (process_all_req w)) = [])"
proof (intro conjI impI)
  assume "get_worksheet sp 0 = Inr (Some ws) \<and> get_all_records ws = Inr rows \<and> rows \<noteq> [] \<and>
          map_of (last rows) ''Username'' = Some u \<and> map_of (last rows) ''Password'' = Some p"
  then have rc: "snd (read_credentials w) = Inr (u, p)"
    by (simp add: read_credentials_worksheet [OF assms] dict_getitem_def)
  show "filter is_auth_call (fst (process_all_req w)) = [Call_authenticate u p]"
    by (simp add: process_all_req_credentials [OF rc] read_credentials_obs authenticate_obs
        checkStausOfService_obs notify_obs split: sum.splits)
next
  assume "get_worksheet sp 0 = Inl e \<or> get_worksheet sp 0 = Inr None \<or>
          (get_worksheet sp 0 = Inr (Some ws) \<and>
             (get_all_records ws = Inl e \<or> get_all_records ws = Inr []))"
  then obtain e' where rc: "snd (read_credentials w) = Inl e'"
    by (auto simp: read_credentials_worksheet [OF assms])
  note run = process_all_req_no_credentials [OF rc]
  show "snd (process_all_req w) = failure_pair" by (simp add: run)
  show "filter is_auth_call (fst (process_all_req w)) = []"
    by (simp add: run read_credentials_obs)
  show "http_requests (fst (process_all_req w)) = []"
    by (simp add: run read_credentials_obs http_requests_append)
qed

theorem credentials_from_last_row_witness:
  "gs_open scenario1 (snd (get_excel_key scenario1 ''WINDOWS_SERVER_PASS'')) = Inr creds_sheet \<and>
   get_worksheet creds_sheet 0 =
     Inr (Some (Worksheet (Inr [[(''Username'', PStr ''old''), (''Password'', PStr ''pw0'')],
                                [(''Username'', PStr ''svc''), (''Password'', PStr ''pw1'')]]))) \<and>
   filter is_auth_call (fst (process_all_req scenario1)) =
     [Call_authenticate (PStr ''svc'') (PStr ''pw1'')] \<and>
   gs_open scenario_empty_sheet (snd (get_excel_key scenario_empty_sheet ''WINDOWS_SERVER_PASS'')) =
     Inr empty_sheet \<and>
   get_worksheet empty_sheet 0 = Inr (Some (Worksheet (Inr []))) \<and>
   snd (process_all_req scenario_empty_sheet) = failure_pair \<and>
   filter is_auth_call (fst (process_all_req scenario_empty_sheet)) = [] \<and>
   http_requests (fst (process_all_req scenario_empty_sheet)) = []"
proof -
  let ?rows = "[[(''Username'', PStr ''old''), (''Password'', PStr ''pw0'')],
                [(''Username'', PStr ''svc''), (''Password'', PStr ''pw1'')]]"
  have o1: "gs_open scenario1 (snd (get_excel_key scenario1 ''WINDOWS_SERVER_PASS'')) = Inr creds_sheet"
    by (simp add: scenario_key) (simp add: world_defs)
  have w1: "get_worksheet creds_sheet 0 = Inr (Some (Worksheet (Inr ?rows)))"
    by (simp add: creds_sheet_def)
  have o2: "gs_open scenario_empty_sheet
      (snd (get_excel_key scenario_empty_sheet ''WINDOWS_SERVER_PASS'')) = Inr empty_sheet"
    by (simp add: scenario_key) (simp add: world_defs)
  have w2: "get_worksheet empty_sheet 0 = Inr (Some (Worksheet (Inr [])))"
    by (simp add: empty_sheet_def)
  show ?thesis
    using o1 w1 o2 w2
      credentials_from_last_row [OF o1, of "Worksheet (Inr ?rows)" ?rows "PStr ''svc''"
        "PStr ''pw1''" OtherError]
      credentials_from_last_row [OF o2, of "Worksheet (Inr [])" "[]" PNone PNone OtherError]
    by simp
qed

text \<open>
  Claim C3. A run reaches the notification step exactly when the credentials were read
  (the authenticator and the status check never raise). In every such run the notifier is
  invoked exactly once, with the result of the status check as text, and with the color
  \<^verbatim>\<open>Good\<close> when that result is the string \<^verbatim>\<open>Running\<close> and \<^verbatim>\<open>Warning\<close> for every
  other result, the failure pair of a failed status check included.
\<close>

theorem notifier_color_policy:
  assumes "snd (read_credentials w) = Inr (u, p)"
    and "m = snd (checkStausOfService w (snd (authenticate w u p)))"
  shows "filter is_notify_call (fst (process_all_req w)) =
           [Call_post_to_webhook m (PStr (if m = PStr ''Running'' then ''Good'' else ''Warning''))]"
  using assms(2)
  by (simp add: process_all_req_credentials [OF assms(1)] read_credentials_obs authenticate_obs
      checkStausOfService_obs notify_obs split: sum.splits)

theorem notifier_color_policy_witness:
  "snd (read_credentials scenario1) = Inr (PStr ''svc'', PStr ''pw1'') \<and>
   PStr ''Running'' =
     snd (checkStausOfService scenario1 (snd (authenticate scenario1 (PStr ''svc'') (PStr ''pw1'')))) \<and>
   filter is_notify_call (fst (process_all_req scenario1)) =
     [Call_post_to_webhook (PStr ''Running'') (PStr ''Good'')] \<and>
   snd (read_credentials scenario_status_down) = Inr (PStr ''svc'', PStr ''pw1'') \<and>
   failure_pair =
     snd (checkStausOfService scenario_status_down
            (snd (authenticate scenario_status_down (PStr ''svc'') (PStr ''pw1'')))) \<and>
   filter is_notify_call (fst (process_all_req scenario_status_down)) =
     [Call_post_to_webhook failure_pair (PStr ''Warning'')]"
proof -
  have m1: "PStr ''Running'' =
     snd (checkStausOfService scenario1 (snd (authenticate scenario1 (PStr ''svc'') (PStr ''pw1''))))"
    by (simp add: scenario_tokens scenario_statuses)
  have m2: "failure_pair =
     snd (checkStausOfService scenario_status_down
            (snd (authenticate scenario_status_down (PStr ''svc'') (PStr ''pw1''))))"
    by (simp add: scenario_tokens scenario_statuses)
  have "failure_pair \<noteq> PStr ''Running''" by (simp add: failure_pair_def)
  then show ?thesis
    using m1 m2 scenario_credentials(1,5)
      notifier_color_policy [OF scenario_credentials(1) m1]
      notifier_color_policy [OF scenario_credentials(5) m2]
    by simp
qed

text \<open>
  Claim C4 as stated, for every text argument, fails: with a configured URL and the failure
  pair as text nothing is posted, and with an unset URL nothing is posted for any text.
\<close>

theorem notifier_posts_nothing_counterexample:
  "\<not> url_unconfigured (webhook_url scenario_status_down) \<and>
   http_requests (fst (post_to_webhook scenario_status_down failure_pair (PStr ''Warning''))) = [] \<and>
   http_requests (fst (post_to_webhook scenario_unset_hook (PStr ''Running'') (PStr ''Good''))) = []"
  by (simp add: world_defs post_to_webhook_requests failure_pair_def)

text \<open>
  Claim C4, as amended. For every string \<open>t\<close> and every color, when the webhook URL is
  configured, the notifier makes exactly one HTTP call: a POST to the webhook URL, without
  headers, of the adaptive card whose single text block reads \<^verbatim>\<open>"BMS Service is "\<close>
  followed by \<open>t\<close> and carries the given color. In the end-to-end run in which the
  credentials are read and the status endpoint answers
  \<^verbatim>\<open>{"status": {"status": "Running"}}\<close>, the notifier is invoked with \<^verbatim>\<open>Running\<close> and
  \<^verbatim>\<open>Good\<close>, and the last HTTP call of the run posts the card with the text
  \<^verbatim>\<open>BMS Service is Running\<close> and the color \<^verbatim>\<open>Good\<close>.
\<close>

theorem notifier_posts_card:
  "(\<not> url_unconfigured (webhook_url w) \<longrightarrow>
      http_requests (fst (post_to_webhook w (PStr t) color)) =
        [\<lparr>req_method = ''POST'', req_url = webhook_url w, req_headers = [],
          req_json = card_body (''BMS Service is '' @ t) color\<rparr>]) \<and>
   text_blocks (card_body (''BMS Service is '' @ t) color) =
     [(PStr (''BMS Service is '' @ t), color)] \<and>
   (\<not> url_unconfigured (webhook_url w) \<and>
    snd (read_credentials w) = Inr (u, p) \<and>
    http w \<lparr>req_method = ''GET'', req_url = service_api_url w,
            req_headers = [(''Authorization'', ''Bearer '' @ py_str (snd (authenticate w u p)))],
            req_json = PNone\<rparr> = Inr r \<and>
    \<not> (400 \<le> status_code r \<and> status_code r < 600) \<and>
    resp_json r = Inr (PDict [(''status'', PDict [(''status'', PStr ''Running'')])]) \<longrightarrow>
      filter is_notify_call (fst (process_all_req w)) =
        [Call_post_to_webhook (PStr ''Running'') (PStr ''Good'')] \<and>
      http_requests (fst (notify w (PStr ''Running''))) =
        [\<lparr>req_method = ''POST'', req_url = webhook_url w, req_headers = [],
          req_json = card_body ''BMS Service is Running'' (PStr ''Good'')\<rparr>] \<and>
      last (http_requests (fst (process_all_req w))) =
        \<lparr>req_method = ''POST'', req_url = webhook_url w, req_headers = [],
         req_json = card_body ''BMS Service is Running'' (PStr ''Good'')\<rparr>)"
proof (intro conjI impI)
  assume "\<not> url_unconfigured (webhook_url w)"
  then show "http_requests (fst (post_to_webhook w (PStr t) color)) =
        [\<lparr>req_method = ''POST'', req_url = webhook_url w, req_headers = [],
          req_json = card_body (''BMS Service is '' @ t) color\<rparr>]"
    by (simp add: post_to_webhook_requests)
next
  show "text_blocks (card_body (''BMS Service is '' @ t) color) =
     [(PStr (''BMS Service is '' @ t), color)]"
    by (rule text_blocks_card_body)
next
  assume a: "\<not> url_unconfigured (webhook_url w) \<and>
    snd (read_credentials w) = Inr (u, p) \<and>
    http w \<lparr>req_method = ''GET'', req_url = service_api_url w,
            req_headers = [(''Authorization'', ''Bearer '' @ py_str (snd (authenticate w u p)))],
            req_json = PNone\<rparr> = Inr r \<and>
    \<not> (400 \<le> status_code r \<and> status_code r < 600) \<and>
    resp_json r = Inr (PDict [(''status'', PDict [(''status'', PStr ''Running'')])])"
  then have rc: "snd (read_credentials w) = Inr (u, p)" by simp
  have m: "snd (checkStausOfService w (snd (authenticate w u p))) = PStr ''Running''"
    using a by (intro checkStausOfService_answer [where r = r] status_of_running) simp_all
  have n: "http_requests (fst (notify w (PStr ''Running''))) =
        [\<lparr>req_method = ''POST'', req_url = webhook_url w, req_headers = [],
          req_json = card_body ''BMS Service is Running'' (PStr ''Good'')\<rparr>]"
    using a by (simp add: notify_def post_to_webhook_requests)
  show "filter is_notify_call (fst (process_all_req w)) =
        [Call_post_to_webhook (PStr ''Running'') (PStr ''Good'')]"
    by (simp add: process_all_req_credentials [OF rc] m read_credentials_obs authenticate_obs
        checkStausOfService_obs notify_obs split: sum.splits)
  show "http_requests (fst (notify w (PStr ''Running''))) =
        [\<lparr>req_method = ''POST'', req_url = webhook_url w, req_headers = [],
          req_json = card_body ''BMS Service is Running'' (PStr ''Good'')\<rparr>]"
    by (rule n)
  show "last (http_requests (fst (process_all_req w))) =
        \<lparr>req_method = ''POST'', req_url = webhook_url w, req_headers = [],
         req_json = card_body ''BMS Service is Running'' (PStr ''Good'')\<rparr>"
    by (simp add: process_all_req_requests [OF rc] m n)
qed

theorem notifier_posts_card_witness:
  "\<not> url_unconfigured (webhook_url scenario1) \<and>
   snd (read_credentials scenario1) = Inr (PStr ''svc'', PStr ''pw1'') \<and>
   http_requests (fst (post_to_webhook scenario1 (PStr ''Running'') (PStr ''Good''))) =
     [\<lparr>req_method = ''POST'', req_url = Some ''https://hook.example/in'', req_headers = [],
       req_json = card_body ''BMS Service is Running'' (PStr ''Good'')\<rparr>] \<and>
   filter is_notify_call (fst (process_all_req scenario1)) =
     [Call_post_to_webhook (PStr ''Running'') (PStr ''Good'')] \<and>
   last (http_requests (fst (process_all_req scenario1))) =
     \<lparr>req_method = ''POST'', req_url = Some ''https://hook.example/in'', req_headers = [],
      req_json = card_body ''BMS Service is Running'' (PStr ''Good'')\<rparr>"
proof -
  have c: "\<not> url_unconfigured (webhook_url scenario1)"
    "webhook_url scenario1 = Some ''https://hook.example/in''"
    by (simp_all add: world_defs)
  show ?thesis
    using c scenario_credentials(1) scenario1_status_answer
      notifier_posts_card [of scenario1 "''Running''" "PStr ''Good''" "PStr ''svc''" "PStr ''pw1''"
        "\<lparr>status_code = 200,
          resp_json = Inr (PDict [(''status'', PDict [(''status'', PStr ''Running'')])]),
          resp_text = []\<rparr>"]
    by simp
qed

text \<open>
  Claim C5. When the webhook URL is unset or empty, an invocation of the notifier leaves
  its own invocation and one log line in the trace, makes no HTTP call and returns
  normally, for every text and color. A run in which the credentials were read, the
  authentication gave a token and the status check gave a status then returns
  \<^verbatim>\<open>Success\<close>, and its HTTP calls are those of the authenticator and the status check.
\<close>

theorem unconfigured_webhook_is_noop:
  assumes "url_unconfigured (webhook_url w)"
  shows "post_to_webhook w text color =
           ([Call_post_to_webhook text color, Print LogWebhookNotConfigured], Inr ()) \<and>
         (snd (read_credentials w) = Inr (u, p) \<and>
          tok = snd (authenticate w u p) \<and> tok \<noteq> failure_pair \<and>
          m = snd (checkStausOfService w tok) \<and> m \<noteq> failure_pair \<longrightarrow>
            snd (process_all_req w) = PStr ''Success'' \<and>
            http_requests (fst (process_all_req w)) =
              http_requests (fst (authenticate w u p)) @
              http_requests (fst (checkStausOfService w tok)))"
proof (intro conjI impI)
  have p: "post_to_webhook w x c = ([Call_post_to_webhook x c, Print LogWebhookNotConfigured], Inr ())"
    for x c
    using assms by (simp add: post_to_webhook_def)
  show "post_to_webhook w text color =
      ([Call_post_to_webhook text color, Print LogWebhookNotConfigured], Inr ())"
    by (rule p)
  assume a: "snd (read_credentials w) = Inr (u, p) \<and>
          tok = snd (authenticate w u p) \<and> tok \<noteq> failure_pair \<and>
          m = snd (checkStausOfService w tok) \<and> m \<noteq> failure_pair"
  then have rc: "snd (read_credentials w) = Inr (u, p)" by simp
  show "snd (process_all_req w) = PStr ''Success''"
    by (simp add: process_all_req_credentials [OF rc] notify_def p)
  show "http_requests (fst (process_all_req w)) =
              http_requests (fst (authenticate w u p)) @
              http_requests (fst (checkStausOfService w tok))"
    using a by (simp add: process_all_req_requests [OF rc] notify_def p)
qed

theorem unconfigured_webhook_is_noop_witness:
  "url_unconfigured (webhook_url scenario_unset_hook) \<and>
   snd (read_credentials scenario_unset_hook) = Inr (PStr ''svc'', PStr ''pw1'') \<and>
   PStr ''abc'' = snd (authenticate scenario_unset_hook (PStr ''svc'') (PStr ''pw1'')) \<and>
   PStr ''abc'' \<noteq> failure_pair \<and>
   PStr ''Running'' = snd (checkStausOfService scenario_unset_hook (PStr ''abc'')) \<and>
   PStr ''Running'' \<noteq> failure_pair \<and>
   post_to_webhook scenario_unset_hook (PStr ''Running'') (PStr ''Good'') =
     ([Call_post_to_webhook (PStr ''Running'') (PStr ''Good''), Print LogWebhookNotConfigured],
      Inr ()) \<and>
   snd (process_all_req scenario_unset_hook) = PStr ''Success''"
proof -
  have h: "url_unconfigured (webhook_url scenario_unset_hook)"
    by (simp add: world_defs)
  have n: "PStr ''abc'' \<noteq> failure_pair" "PStr ''Running'' \<noteq> failure_pair"
    by (simp_all add: failure_pair_def)
  show ?thesis
    using h n scenario_credentials(3) scenario_tokens(3) scenario_statuses(3)
      unconfigured_webhook_is_noop [OF h, of "PStr ''Running''" "PStr ''Good''" "PStr ''svc''"
        "PStr ''pw1''" "PStr ''abc''" "PStr ''Running''"]
    by simp
qed

text \<open>
  Claim C6. With a configured webhook URL and a string as text: when the HTTP call of the
  notifier raises, or is answered with a status other than 202, the notifier logs one line
  and returns normally. A run in which the credentials were read and the status check gave
  a string then returns \<^verbatim>\<open>Success\<close>. Whenever the notifier attempts an HTTP call at all,
  its text is a string and it returns normally.
\<close>

theorem webhook_failure_is_only_logged:
  assumes "\<not> url_unconfigured (webhook_url w)"
    and "req = \<lparr>req_method = ''POST'', req_url = webhook_url w, req_headers = [],
               req_json = card_body (''BMS Service is '' @ t) color\<rparr>"
  shows "(http w req = Inl e \<longrightarrow>
            post_to_webhook w (PStr t) color =
              ([Call_post_to_webhook (PStr t) color, HttpCall req, Print (LogWebhookError e)],
               Inr ())) \<and>
         (http w req = Inr r \<and> status_code r \<noteq> 202 \<longrightarrow>
            post_to_webhook w (PStr t) color =
              ([Call_post_to_webhook (PStr t) color, HttpCall req,
                Print (LogWebhookFailed (status_code r) (resp_text r))], Inr ())) \<and>
         (snd (read_credentials w) = Inr (u, p) \<and>
          snd (checkStausOfService w (snd (authenticate w u p))) = PStr t \<and>
          color = PStr (if t = ''Running'' then ''Good'' else ''Warning'') \<and>
          (http w req = Inl e \<or> (http w req = Inr r \<and> status_code r \<noteq> 202)) \<longrightarrow>
            snd (process_all_req w) = PStr ''Success'') \<and>
         (http_requests (fst (post_to_webhook w x c)) \<noteq> [] \<longrightarrow>
            is_str x \<and> snd (post_to_webhook w x c) = Inr ())"
proof (intro conjI impI)
  assume "http_requests (fst (post_to_webhook w x c)) \<noteq> []"
  then show "is_str x" and "snd (post_to_webhook w x c) = Inr ()"
    by (simp_all add: post_to_webhook_call_returns)
next
  assume "http w req = Inl e"
  then show "post_to_webhook w (PStr t) color =
      ([Call_post_to_webhook (PStr t) color, HttpCall req, Print (LogWebhookError e)], Inr ())"
    using assms by (simp add: post_to_webhook_def str_add_def Let_def)
next
  assume "http w req = Inr r \<and> status_code r \<noteq> 202"
  then show "post_to_webhook w (PStr t) color =
      ([Call_post_to_webhook (PStr t) color, HttpCall req,
        Print (LogWebhookFailed (status_code r) (resp_text r))], Inr ())"
    using assms by (simp add: post_to_webhook_def str_add_def Let_def)
next
  assume a: "snd (read_credentials w) = Inr (u, p) \<and>
          snd (checkStausOfService w (snd (authenticate w u p))) = PStr t \<and>
          color = PStr (if t = ''Running'' then ''Good'' else ''Warning'') \<and>
          (http w req = Inl e \<or> (http w req = Inr r \<and> status_code r \<noteq> 202))"
  then have rc: "snd (read_credentials w) = Inr (u, p)" by simp
  have n: "snd (post_to_webhook w (PStr s) c) = Inr ()" for s c
    by (simp add: post_to_webhook_def str_add_def Let_def split: sum.splits)
  show "snd (process_all_req w) = PStr ''Success''"
    using a by (simp add: process_all_req_credentials [OF rc] notify_def n)
qed

theorem webhook_failure_is_only_logged_witness:
  "\<not> url_unconfigured (webhook_url scenario_hook_down) \<and>
   http scenario_hook_down
     \<lparr>req_method = ''POST'', req_url = webhook_url scenario_hook_down, req_headers = [],
      req_json = card_body (''BMS Service is '' @ ''Running'') (PStr ''Good'')\<rparr> =
     Inr \<lparr>status_code = 500, resp_json = Inr PNone, resp_text = []\<rparr> \<and>
   snd (read_credentials scenario_hook_down) = Inr (PStr ''svc'', PStr ''pw1'') \<and>
   snd (checkStausOfService scenario_hook_down
          (snd (authenticate scenario_hook_down (PStr ''svc'') (PStr ''pw1'')))) = PStr ''Running'' \<and>
   post_to_webhook scenario_hook_down (PStr ''Running'') (PStr ''Good'') =
     ([Call_post_to_webhook (PStr ''Running'') (PStr ''Good''),
       HttpCall \<lparr>req_method = ''POST'', req_url = webhook_url scenario_hook_down,
                 req_headers = [],
                 req_json = card_body (''BMS Service is '' @ ''Running'') (PStr ''Good'')\<rparr>,
       Print (LogWebhookFailed 500 [])], Inr ()) \<and>
   http_requests (fst (post_to_webhook scenario_hook_down (PStr ''Running'') (PStr ''Good''))) \<noteq> [] \<and>
   snd (process_all_req scenario_hook_down) = PStr ''Success''"
proof -
  let ?req = "\<lparr>req_method = ''POST'', req_url = webhook_url scenario_hook_down, req_headers = [],
      req_json = card_body (''BMS Service is '' @ ''Running'') (PStr ''Good'')\<rparr>"
  let ?r = "\<lparr>status_code = 500, resp_json = Inr PNone, resp_text = []\<rparr>"
  have c: "\<not> url_unconfigured (webhook_url scenario_hook_down)"
    by (simp add: world_defs)
  have h: "http scenario_hook_down ?req = Inr ?r"
    by (simp add: world_defs)
  have m: "snd (checkStausOfService scenario_hook_down
          (snd (authenticate scenario_hook_down (PStr ''svc'') (PStr ''pw1'')))) = PStr ''Running''"
    by (simp add: scenario_tokens scenario_statuses)
  have s: "status_code ?r \<noteq> 202" by simp
  have q: "http_requests (fst (post_to_webhook scenario_hook_down (PStr ''Running'') (PStr ''Good''))) \<noteq> []"
    using c by (simp add: post_to_webhook_requests)
  show ?thesis
    using c h m s q scenario_credentials(6)
      webhook_failure_is_only_logged [OF c refl, of "''Running''" "PStr ''Good''" OtherError ?r
        "PStr ''svc''" "PStr ''pw1''" "PStr ''Running''" "PStr ''Good''"]
    by simp
qed

text \<open>
  The request of \<^verbatim>\<open>authenticate\<close>, in every world: one HTTP call, a POST to the configured
  auth endpoint with the JSON body \<^verbatim>\<open>{"username": username, "password": password}\<close>;
  \<^verbatim>\<open>apiCaller\<close> formats the token \<^verbatim>\<open>None\<close> it is given into the header value
  \<^verbatim>\<open>Bearer None\<close>. When the endpoint answers with a status outside 400..599 and a JSON
  object that has a \<^verbatim>\<open>token\<close> field, the function returns that field.
\<close>

theorem authenticate_request:
  "http_requests (fst (authenticate w username password)) =
     [\<lparr>req_method = ''POST'', req_url = auth_api_url w,
       req_headers = [(''Authorization'', ''Bearer None'')],
       req_json = PDict [(''username'', username), (''password'', password)]\<rparr>] \<and>
   (http w \<lparr>req_method = ''POST'', req_url = auth_api_url w,
            req_headers = [(''Authorization'', ''Bearer None'')],
            req_json = PDict [(''username'', username), (''password'', password)]\<rparr> = Inr r \<and>
    \<not> (400 \<le> status_code r \<and> status_code r < 600) \<and>
    resp_json r = Inr (PDict kvs) \<and> map_of kvs ''token'' = Some tok \<longrightarrow>
      snd (authenticate w username password) = tok)"
proof (intro conjI impI)
  show "http_requests (fst (authenticate w username password)) =
     [\<lparr>req_method = ''POST'', req_url = auth_api_url w,
       req_headers = [(''Authorization'', ''Bearer None'')],
       req_json = PDict [(''username'', username), (''password'', password)]\<rparr>]"
    by (rule authenticate_obs)
next
  assume "http w \<lparr>req_method = ''POST'', req_url = auth_api_url w,
            req_headers = [(''Authorization'', ''Bearer None'')],
            req_json = PDict [(''username'', username), (''password'', password)]\<rparr> = Inr r \<and>
    \<not> (400 \<le> status_code r \<and> status_code r < 600) \<and>
    resp_json r = Inr (PDict kvs) \<and> map_of kvs ''token'' = Some tok"
  then show "snd (authenticate w username password) = tok"
    by (auto simp: authenticate_def apiCaller_def raise_for_status_def Let_def py_str_def
        token_of_response_def py_getitem_def dict_getitem_def)
qed

theorem authenticate_request_witness:
  "http scenario1 \<lparr>req_method = ''POST'', req_url = auth_api_url scenario1,
            req_headers = [(''Authorization'', ''Bearer None'')],
            req_json = PDict [(''username'', PStr ''svc''), (''password'', PStr ''pw1'')]\<rparr> =
     Inr \<lparr>status_code = 200, resp_json = Inr (PDict [(''token'', PStr ''abc'')]),
          resp_text = []\<rparr> \<and>
   map_of [(''token'', PStr ''abc'')] ''token'' = Some (PStr ''abc'') \<and>
   snd (authenticate scenario1 (PStr ''svc'') (PStr ''pw1'')) = PStr ''abc''"
proof -
  let ?r = "\<lparr>status_code = 200, resp_json = Inr (PDict [(''token'', PStr ''abc'')]),
          resp_text = []\<rparr>"
  have h: "http scenario1 \<lparr>req_method = ''POST'', req_url = auth_api_url scenario1,
            req_headers = [(''Authorization'', ''Bearer None'')],
            req_json = PDict [(''username'', PStr ''svc''), (''password'', PStr ''pw1'')]\<rparr> =
     Inr ?r"
    by (simp add: world_defs)
  show ?thesis
    using h authenticate_request [of scenario1 "PStr ''svc''" "PStr ''pw1''" ?r
        "[(''token'', PStr ''abc'')]" "PStr ''abc''"]
    by simp
qed

text \<open>
  Claim C7 says that the request of \<^verbatim>\<open>authenticate\<close> is a POST to the auth endpoint with
  the JSON body \<^verbatim>\<open>{"username": username, "password": password}\<close>, that it carries no
  bearer header, and that the token field of the answer is returned. In scenario 1 the
  method, the URL, the body and the returned token are as the claim says, but the request
  carries the header \<^verbatim>\<open>Authorization: Bearer None\<close>: \<^verbatim>\<open>authenticate\<close> passes
  \<^verbatim>\<open>None\<close> for the token, and \<^verbatim>\<open>apiCaller\<close>, which documents the token as a string,
  formats it into the header all the same.
\<close>

theorem authenticate_sends_bearer_none:
  "map request_line (http_requests (fst (authenticate scenario1 (PStr ''svc'') (PStr ''pw1'')))) =
     [(''POST'', Some ''https://bms.example/login'', [(''Authorization'', ''Bearer None'')])] \<and>
   map req_json (http_requests (fst (authenticate scenario1 (PStr ''svc'') (PStr ''pw1'')))) =
     [PDict [(''username'', PStr ''svc''), (''password'', PStr ''pw1'')]] \<and>
   snd (authenticate scenario1 (PStr ''svc'') (PStr ''pw1'')) = PStr ''abc''"
  by (simp add: authenticate_obs request_line_def scenario_tokens) (simp add: world_defs)

text \<open>
  Claim C9 as stated, for every invocation with a text that is not a string, fails when the
  webhook URL is unset: the guard at the head of the function returns before the text is
  built, and the run returns \<^verbatim>\<open>Success\<close>.
\<close>

theorem non_string_text_unconfigured_counterexample:
  "\<not> is_str failure_pair \<and>
   post_to_webhook scenario_unset_hook_status_down failure_pair (PStr ''Warning'') =
     ([Call_post_to_webhook failure_pair (PStr ''Warning''), Print LogWebhookNotConfigured],
      Inr ()) \<and>
   snd (checkStausOfService scenario_unset_hook_status_down (PStr ''abc'')) = failure_pair \<and>
   snd (process_all_req scenario_unset_hook_status_down) = PStr ''Success''"
  by (simp add: world_defs run_defs)

text \<open>
  Claim C9, as amended. When the webhook URL is configured, \<^verbatim>\<open>post_to_webhook\<close> with a
  text that is not a string raises \<^verbatim>\<open>TypeError\<close> right after its invocation, before any
  HTTP call. The failure pair of a failed status check is such a text: the run whose status
  check did not give a string ends in the handler of the orchestrator, logs the
  \<^verbatim>\<open>TypeError\<close> and returns the failure pair, without an HTTP call to the webhook.
\<close>

theorem non_string_text_raises:
  assumes "\<not> url_unconfigured (webhook_url w)"
  shows "(\<not> is_str text \<longrightarrow>
            post_to_webhook w text color = ([Call_post_to_webhook text color], Inl TypeError)) \<and>
         \<not> is_str failure_pair \<and>
         (snd (read_credentials w) = Inr (u, p) \<and>
          \<not> is_str (snd (checkStausOfService w (snd (authenticate w u p)))) \<longrightarrow>
            snd (process_body w) = Inl TypeError \<and>
            snd (process_all_req w) = failure_pair \<and>
            last (fst (process_all_req w)) = Print (LogTraceback TypeError) \<and>
            http_requests (fst (process_all_req w)) =
              http_requests (fst (authenticate w u p)) @
              http_requests (fst (checkStausOfService w (snd (authenticate w u p)))))"
proof (intro conjI impI)
  have p: "post_to_webhook w x c = ([Call_post_to_webhook x c], Inl TypeError)"
    if "\<not> is_str x" for x c
    using that assms by (cases x) (simp_all add: post_to_webhook_def str_add_def)
  show "post_to_webhook w text color = ([Call_post_to_webhook text color], Inl TypeError)"
    if "\<not> is_str text"
    using that by (rule p)
  show "\<not> is_str failure_pair" by (simp add: failure_pair_def)
  assume a: "snd (read_credentials w) = Inr (u, p) \<and>
          \<not> is_str (snd (checkStausOfService w (snd (authenticate w u p))))"
  then have rc: "snd (read_credentials w) = Inr (u, p)" by simp
  let ?m = "snd (checkStausOfService w (snd (authenticate w u p)))"
  have ne: "?m \<noteq> PStr ''Running''" using a by auto
  have n: "notify w ?m = ([Call_post_to_webhook ?m (PStr ''Warning'')], Inl TypeError)"
    using a by (simp add: notify_def ne p)
  show "snd (process_body w) = Inl TypeError"
    by (simp add: process_body_def snd_seq rc check_and_notify_def step_simps n)
  show "snd (process_all_req w) = failure_pair"
    by (simp add: process_all_req_credentials [OF rc] n)
  show "last (fst (process_all_req w)) = Print (LogTraceback TypeError)"
    by (simp add: process_all_req_credentials [OF rc] n)
  show "http_requests (fst (process_all_req w)) =
              http_requests (fst (authenticate w u p)) @
              http_requests (fst (checkStausOfService w (snd (authenticate w u p))))"
    by (simp add: process_all_req_requests [OF rc] n)
qed

theorem non_string_text_raises_witness:
  "\<not> url_unconfigured (webhook_url scenario_status_down) \<and>
   \<not> is_str failure_pair \<and>
   post_to_webhook scenario_status_down failure_pair (PStr ''Warning'') =
     ([Call_post_to_webhook failure_pair (PStr ''Warning'')], Inl TypeError) \<and>
   snd (read_credentials scenario_status_down) = Inr (PStr ''svc'', PStr ''pw1'') \<and>
   snd (checkStausOfService scenario_status_down
          (snd (authenticate scenario_status_down (PStr ''svc'') (PStr ''pw1'')))) = failure_pair \<and>
   snd (process_body scenario_status_down) = Inl TypeError \<and>
   snd (process_all_req scenario_status_down) = failure_pair"
proof -
  have c: "\<not> url_unconfigured (webhook_url scenario_status_down)"
    by (simp add: world_defs)
  have m: "snd (checkStausOfService scenario_status_down
          (snd (authenticate scenario_status_down (PStr ''svc'') (PStr ''pw1'')))) = failure_pair"
    by (simp add: scenario_tokens scenario_statuses)
  show ?thesis
    using c m scenario_credentials(5)
      non_string_text_raises [OF c, of failure_pair "PStr ''Warning''" "PStr ''svc''" "PStr ''pw1''"]
    by simp
qed

text \<open>
  Claim C1 says that a run whose authentication fails invokes neither the status check nor
  the notifier. The script does both. In scenario 4 (the auth endpoint answers HTTP 401)
  \<^verbatim>\<open>authenticate\<close> returns the failure pair, the orchestrator passes it on as the token,
  the status endpoint is called with the header \<^verbatim>\<open>Bearer (None, None)\<close>, and the notifier
  is invoked with the failure pair. In the same scenario with the webhook URL unset the run
  even returns \<^verbatim>\<open>Success\<close>.
\<close>

theorem status_check_runs_after_failed_authentication:
  "snd (authenticate scenario4 (PStr ''svc'') (PStr ''pw1'')) = failure_pair \<and>
   filter is_status_call (fst (process_all_req scenario4)) =
     [Call_checkStausOfService failure_pair] \<and>
   filter is_notify_call (fst (process_all_req scenario4)) =
     [Call_post_to_webhook failure_pair (PStr ''Warning'')] \<and>
   map request_line (http_requests (fst (process_all_req scenario4))) =
     [(''POST'', Some ''https://bms.example/login'', [(''Authorization'', ''Bearer None'')]),
      (''GET'', Some ''https://bms.example/status'',
       [(''Authorization'', ''Bearer (None, None)'')])] \<and>
   snd (authenticate scenario4_unset_hook (PStr ''svc'') (PStr ''pw1'')) = failure_pair \<and>
   snd (process_all_req scenario4_unset_hook) = PStr ''Success''"
  by (simp add: world_defs run_defs request_line_def)

end
